theory Spec2Isabelle
  imports Complex_Main
begin

section \<open>Values of the program\<close>

text \<open>
  The server code keeps times as ISO strings and compares them after \<^verbatim>\<open>new Date(s)\<close>.
  A JavaScript Date holds either a number of milliseconds or NaN (Invalid Date), and every
  relational operator is false as soon as one side is NaN. A time is therefore modelled by
  the value of \<^verbatim>\<open>new Date(s)\<close>: \<open>Some ms\<close>, or \<open>None\<close> for Invalid Date.
\<close>

type_synonym jsdate = "int option"

fun date_lt :: "jsdate \<Rightarrow> jsdate \<Rightarrow> bool" where
  "date_lt (Some x) (Some y) = (x < y)"
| "date_lt _ _ = False"

fun date_le :: "jsdate \<Rightarrow> jsdate \<Rightarrow> bool" where
  "date_le (Some x) (Some y) = (x \<le> y)"
| "date_le _ _ = False"

definition date_gt :: "jsdate \<Rightarrow> jsdate \<Rightarrow> bool" where
  "date_gt a b = date_lt b a"

definition date_ge :: "jsdate \<Rightarrow> jsdate \<Rightarrow> bool" where
  "date_ge a b = date_le b a"

text \<open>
  Amounts are JavaScript Numbers; they are modelled by exact rationals (the inputs used
  below are integers, on which the two agree). \<^verbatim>\<open>Math.round\<close> rounds to the nearest
  integer, a half going up.
\<close>

definition Math_round :: "rat \<Rightarrow> int" where
  "Math_round x = \<lfloor>x + 1 / 2\<rfloor>"

text \<open>The code throws \<^verbatim>\<open>new Error(message)\<close>; the message is all that tells errors apart.\<close>

datatype error = Error string

abbreviation ListingNotFound :: error where
  "ListingNotFound \<equiv> Error ''Listing not found''"
abbreviation ListingNotActive :: error where
  "ListingNotActive \<equiv> Error ''Listing is not active''"
abbreviation InvalidRange :: error where
  "InvalidRange \<equiv> Error ''End time must be after start time''"
abbreviation SlotConflict :: error where
  "SlotConflict \<equiv> Error ''The requested time slot is not available''"
abbreviation BookingNotFound :: error where
  "BookingNotFound \<equiv> Error ''Booking not found''"
abbreviation Unauthorized :: error where
  "Unauthorized \<equiv> Error ''Unauthorized to cancel this booking''"
abbreviation AlreadyCancelled :: error where
  "AlreadyCancelled \<equiv> Error ''Booking is already cancelled''"
abbreviation PastBooking :: error where
  "PastBooking \<equiv> Error ''Cannot cancel past bookings''"

section \<open>Documents and the repository\<close>

text \<open>
  The id of a document is its key in the collection, not a field of its data. A booking
  has a stored field named \<^verbatim>\<open>id\<close> only when a caller has written one (\<open>id_field\<close>).
\<close>

record listing =
  listing_vendorId :: string
  listing_status :: string
  price :: rat

record booking =
  id_field :: "string option"
  listingId :: string
  vendorId :: string
  userId :: "string option"
  customerName :: string
  customerEmail :: string
  customerPhone :: string
  bookingNotes :: string
  startTime :: jsdate
  endTime :: jsdate
  status :: string
  totalAmount :: rat
  paymentStatus :: string
  stripePaymentIntentId :: "string option"
  stripePaymentId :: "string option"
  cancelReason :: "string option"
  cancelledBy :: "string option"
  cancelledAt :: "int option"
  createdAt :: int
  updatedAt :: "int option"

record transaction =
  txn_bookingId :: string
  txn_vendorId :: string
  txn_amount :: rat
  txn_fee :: rat
  txn_net :: rat
  txn_stripePaymentId :: string
  txn_status :: string
  txn_createdAt :: int

text \<open>
  A Firestore collection is a list of documents with their ids, in document order.
\<close>

record db =
  listings :: "(string \<times> listing) list"
  bookings :: "(string \<times> booking) list"
  transactions :: "(string \<times> transaction) list"

text \<open>\<^verbatim>\<open>FirebaseService.getDocument\<close>: the document, or null.\<close>

definition getDocument :: "(string \<times> 'a) list \<Rightarrow> string \<Rightarrow> 'a option" where
  "getDocument coll i = map_of coll i"

text \<open>
  \<^verbatim>\<open>docRef.update(data)\<close>: the fields of \<open>data\<close> (the function \<open>f\<close>) are written
  over the document with that id. Firestore rejects the update of a missing document;
  the collection is then unchanged.
\<close>

fun updateDocument :: "(string \<times> 'a) list \<Rightarrow> string \<Rightarrow> ('a \<Rightarrow> 'a) \<Rightarrow> (string \<times> 'a) list" where
  "updateDocument [] i f = []"
| "updateDocument ((k, v) # coll) i f =
     (if k = i then (k, f v) # coll else (k, v) # updateDocument coll i f)"

text \<open>
  \<^verbatim>\<open>collection.add(data)\<close>: a new document under an id that Firestore generates; the id
  is a parameter of the model.
\<close>

definition createDocument :: "(string \<times> 'a) list \<Rightarrow> string \<Rightarrow> 'a \<Rightarrow> (string \<times> 'a) list" where
  "createDocument coll newId d = coll @ [(newId, d)]"

section \<open>BookingService.checkAvailability\<close>

text \<open>
  The query of \<^verbatim>\<open>checkAvailability\<close>:
  \<^verbatim>\<open>[['listingId', '==', listingId], ['status', 'in', ['pending', 'confirmed']]]\<close>.
\<close>

definition activeBookings :: "db \<Rightarrow> string \<Rightarrow> (string \<times> booking) list" where
  "activeBookings d lid =
     filter (\<lambda>(i, b). listingId b = lid \<and> (status b = ''pending'' \<or> status b = ''confirmed''))
       (bookings d)"

text \<open>The test in the body of the loop, as written in the source.\<close>

definition overlapTest :: "jsdate \<Rightarrow> jsdate \<Rightarrow> jsdate \<Rightarrow> jsdate \<Rightarrow> bool" where
  "overlapTest start end bookingStart bookingEnd =
     ((date_ge start bookingStart \<and> date_lt start bookingEnd) \<or>
      (date_gt end bookingStart \<and> date_le end bookingEnd) \<or>
      (date_le start bookingStart \<and> date_ge end bookingEnd))"

text \<open>The \<^verbatim>\<open>for\<close> loop: false at the first booking that overlaps, true at the end.\<close>

fun overlapLoop :: "jsdate \<Rightarrow> jsdate \<Rightarrow> (string \<times> booking) list \<Rightarrow> bool" where
  "overlapLoop start end [] = True"
| "overlapLoop start end ((i, b) # rest) =
     (if overlapTest start end (startTime b) (endTime b) then False
      else overlapLoop start end rest)"

definition checkAvailability :: "db \<Rightarrow> string \<Rightarrow> jsdate \<Rightarrow> jsdate \<Rightarrow> error + bool" where
  "checkAvailability d lid start end =
     (if date_ge start end then Inl InvalidRange
      else Inr (overlapLoop start end (activeBookings d lid)))"

text \<open>Half-open overlap of \<open>[s1, e1)\<close> and \<open>[s2, e2)\<close>, in the words of the specification.\<close>

definition halfOpenOverlap :: "jsdate \<Rightarrow> jsdate \<Rightarrow> jsdate \<Rightarrow> jsdate \<Rightarrow> bool" where
  "halfOpenOverlap s1 e1 s2 e2 = (date_lt s1 e2 \<and> date_lt s2 e1)"

section \<open>BookingService.createBooking\<close>

text \<open>
  The object a caller hands to \<^verbatim>\<open>createBooking\<close>. It is spread into the new booking
  (\<^verbatim>\<open>...bookingData\<close>), so it may carry any field of a booking; an absent field is
  \<open>None\<close>. The fields \<^verbatim>\<open>vendorId\<close>, \<^verbatim>\<open>totalAmount\<close>, \<^verbatim>\<open>status\<close>, \<^verbatim>\<open>paymentStatus\<close> and
  \<^verbatim>\<open>createdAt\<close> are written after the spread.
\<close>

record bookingData =
  bd_id :: "string option"
  bd_listingId :: string
  bd_startTime :: jsdate
  bd_endTime :: jsdate
  bd_userId :: "string option"
  bd_customerName :: string
  bd_customerEmail :: string
  bd_customerPhone :: string
  bd_notes :: string
  bd_vendorId :: "string option"
  bd_status :: "string option"
  bd_totalAmount :: "rat option"
  bd_paymentStatus :: "string option"
  bd_stripePaymentIntentId :: "string option"
  bd_stripePaymentId :: "string option"
  bd_cancelReason :: "string option"
  bd_cancelledBy :: "string option"
  bd_cancelledAt :: "int option"
  bd_createdAt :: "int option"
  bd_updatedAt :: "int option"

text \<open>
  \<^verbatim>\<open>a || b\<close> on an optional string and on an optional number: the empty string, zero
  and an absent field are falsy.
\<close>

definition str_or :: "string option \<Rightarrow> string \<Rightarrow> string" where
  "str_or a b = (case a of None \<Rightarrow> b | Some v \<Rightarrow> if v = [] then b else v)"

definition num_or :: "rat option \<Rightarrow> rat \<Rightarrow> rat" where
  "num_or a b = (case a of None \<Rightarrow> b | Some v \<Rightarrow> if v = 0 then b else v)"

definition newBooking :: "bookingData \<Rightarrow> listing \<Rightarrow> int \<Rightarrow> booking" where
  "newBooking bookingData l now =
     \<lparr> id_field = bd_id bookingData,
       listingId = bd_listingId bookingData,
       vendorId = listing_vendorId l,
       userId = bd_userId bookingData,
       customerName = bd_customerName bookingData,
       customerEmail = bd_customerEmail bookingData,
       customerPhone = bd_customerPhone bookingData,
       bookingNotes = bd_notes bookingData,
       startTime = bd_startTime bookingData,
       endTime = bd_endTime bookingData,
       status = str_or (bd_status bookingData) ''pending'',
       totalAmount = num_or (bd_totalAmount bookingData) (price l),
       paymentStatus = ''pending'',
       stripePaymentIntentId = bd_stripePaymentIntentId bookingData,
       stripePaymentId = bd_stripePaymentId bookingData,
       cancelReason = bd_cancelReason bookingData,
       cancelledBy = bd_cancelledBy bookingData,
       cancelledAt = bd_cancelledAt bookingData,
       createdAt = now,
       updatedAt = bd_updatedAt bookingData \<rparr>"

text \<open>
  \<open>newId\<close> is the id Firestore gives the new document and \<open>now\<close> the clock. The result
  is the error thrown, or the created booking with the database after the write.
\<close>

definition createBooking :: "db \<Rightarrow> bookingData \<Rightarrow> string \<Rightarrow> int \<Rightarrow> error + (booking \<times> db)" where
  "createBooking d bookingData newId now =
     (case getDocument (listings d) (bd_listingId bookingData) of
        None \<Rightarrow> Inl ListingNotFound
      | Some l \<Rightarrow>
          if listing_status l \<noteq> ''active'' then Inl ListingNotActive
          else
            (case checkAvailability d (bd_listingId bookingData)
                    (bd_startTime bookingData) (bd_endTime bookingData) of
               Inl err \<Rightarrow> Inl err
             | Inr isAvailable \<Rightarrow>
                 if \<not> isAvailable then Inl SlotConflict
                 else
                   let b = newBooking bookingData l now
                   in Inr (b, d\<lparr>bookings := createDocument (bookings d) newId b\<rparr>)))"

section \<open>BookingService.updateBooking\<close>

text \<open>
  The update object: the fields present are written over the stored booking. It is
  modelled with the fields the HTTP handlers allow, \<^verbatim>\<open>paymentStatus\<close> and \<^verbatim>\<open>id\<close>; the
  service writes whatever object it is given. A time that is present is a non-empty string, so
  it is truthy.
\<close>

record bookingPatch =
  p_id :: "string option"
  p_status :: "string option"
  p_startTime :: "jsdate option"
  p_endTime :: "jsdate option"
  p_notes :: "string option"
  p_customerName :: "string option"
  p_customerEmail :: "string option"
  p_customerPhone :: "string option"
  p_totalAmount :: "rat option"
  p_paymentStatus :: "string option"

definition orElse :: "'a option \<Rightarrow> 'a \<Rightarrow> 'a" where
  "orElse a b = (case a of None \<Rightarrow> b | Some v \<Rightarrow> v)"

text \<open>\<^verbatim>\<open>updateData.updatedAt = now\<close>, then \<^verbatim>\<open>docRef.update(updateData)\<close>.\<close>

definition applyPatch :: "bookingPatch \<Rightarrow> int \<Rightarrow> booking \<Rightarrow> booking" where
  "applyPatch p now b =
     b\<lparr> id_field := (case p_id p of None \<Rightarrow> id_field b | Some v \<Rightarrow> Some v),
        status := orElse (p_status p) (status b),
        startTime := orElse (p_startTime p) (startTime b),
        endTime := orElse (p_endTime p) (endTime b),
        bookingNotes := orElse (p_notes p) (bookingNotes b),
        customerName := orElse (p_customerName p) (customerName b),
        customerEmail := orElse (p_customerEmail p) (customerEmail b),
        customerPhone := orElse (p_customerPhone p) (customerPhone b),
        totalAmount := orElse (p_totalAmount p) (totalAmount b),
        paymentStatus := orElse (p_paymentStatus p) (paymentStatus b),
        updatedAt := Some now \<rparr>"

text \<open>
  The query of \<^verbatim>\<open>updateBooking\<close>: the conditions of \<^verbatim>\<open>checkAvailability\<close> and
  \<^verbatim>\<open>['id', '!=', bookingId]\<close>. The last condition is on the stored field \<^verbatim>\<open>id\<close> of the
  documents, and a Firestore inequality matches only the documents that have the field:
  a booking without a stored \<^verbatim>\<open>id\<close> is not fetched, whatever its key.
\<close>

definition otherActiveBookings :: "db \<Rightarrow> string \<Rightarrow> string \<Rightarrow> (string \<times> booking) list" where
  "otherActiveBookings d lid bookingId =
     filter (\<lambda>(i, b). listingId b = lid \<and> (status b = ''pending'' \<or> status b = ''confirmed'')
                \<and> (case id_field b of None \<Rightarrow> False | Some v \<Rightarrow> v \<noteq> bookingId))
       (bookings d)"

definition updateBooking :: "db \<Rightarrow> string \<Rightarrow> bookingPatch \<Rightarrow> int \<Rightarrow> error + (booking option \<times> db)" where
  "updateBooking d bookingId updateData now =
     (case getDocument (bookings d) bookingId of
        None \<Rightarrow> Inl BookingNotFound
      | Some b \<Rightarrow>
          let start = orElse (p_startTime updateData) (startTime b);
              end = orElse (p_endTime updateData) (endTime b);
              d' = d\<lparr>bookings := updateDocument (bookings d) bookingId (applyPatch updateData now)\<rparr>
          in if p_startTime updateData \<noteq> None \<or> p_endTime updateData \<noteq> None then
               (if date_ge start end then Inl InvalidRange
                else if \<not> overlapLoop start end (otherActiveBookings d (listingId b) bookingId)
                  then Inl SlotConflict
                else Inr (getDocument (bookings d') bookingId, d'))
             else Inr (getDocument (bookings d') bookingId, d'))"

section \<open>BookingService.cancelBooking\<close>

definition cancelUpdate :: "string \<Rightarrow> string \<Rightarrow> int \<Rightarrow> booking \<Rightarrow> booking" where
  "cancelUpdate uid reason now b =
     b\<lparr> status := ''cancelled'',
        cancelReason := Some reason,
        cancelledBy := Some uid,
        cancelledAt := Some now,
        updatedAt := Some now \<rparr>"

definition cancelBooking :: "db \<Rightarrow> string \<Rightarrow> string \<Rightarrow> string \<Rightarrow> int \<Rightarrow> error + (booking option \<times> db)" where
  "cancelBooking d bookingId uid reason now =
     (case getDocument (bookings d) bookingId of
        None \<Rightarrow> Inl BookingNotFound
      | Some b \<Rightarrow>
          if vendorId b \<noteq> uid \<and> userId b \<noteq> Some uid then Inl Unauthorized
          else if status b = ''cancelled'' then Inl AlreadyCancelled
          else if date_lt (startTime b) (Some now) then Inl PastBooking
          else
            let d' = d\<lparr>bookings := updateDocument (bookings d) bookingId (cancelUpdate uid reason now)\<rparr>
            in Inr (getDocument (bookings d') bookingId, d'))"

section \<open>bookingController\<close>

text \<open>
  The HTTP handlers answer with a status code. \<^verbatim>\<open>createBooking\<close> reads only the fields
  it destructures from the body; \<open>uid\<close>, \<open>userName\<close> and \<open>userEmail\<close> are \<^verbatim>\<open>req.user\<close>.
\<close>

definition ctl_newBooking ::
  "bookingData \<Rightarrow> listing \<Rightarrow> string \<Rightarrow> string option \<Rightarrow> string option \<Rightarrow> int \<Rightarrow> booking" where
  "ctl_newBooking body l uid userName userEmail now =
     \<lparr> id_field = None,
       listingId = bd_listingId body,
       vendorId = listing_vendorId l,
       userId = Some uid,
       customerName = str_or (Some (bd_customerName body)) (str_or userName []),
       customerEmail = str_or (Some (bd_customerEmail body)) (str_or userEmail []),
       customerPhone = bd_customerPhone body,
       bookingNotes = bd_notes body,
       startTime = bd_startTime body,
       endTime = bd_endTime body,
       status = ''pending'',
       totalAmount = price l,
       paymentStatus = ''pending'',
       stripePaymentIntentId = None,
       stripePaymentId = None,
       cancelReason = None,
       cancelledBy = None,
       cancelledAt = None,
       createdAt = now,
       updatedAt = None \<rparr>"

definition ctl_createBooking ::
  "db \<Rightarrow> bookingData \<Rightarrow> string \<Rightarrow> string option \<Rightarrow> string option \<Rightarrow> string \<Rightarrow> int \<Rightarrow> nat \<times> db" where
  "ctl_createBooking d body uid userName userEmail newId now =
     (case getDocument (listings d) (bd_listingId body) of
        None \<Rightarrow> (404, d)
      | Some l \<Rightarrow>
          if listing_status l \<noteq> ''active'' then (400, d)
          else (201, d\<lparr>bookings := createDocument (bookings d) newId
                         (ctl_newBooking body l uid userName userEmail now)\<rparr>))"

text \<open>
  \<^verbatim>\<open>updateBooking\<close> copies the allowed fields of the body that are not undefined. The
  controller allows status, startTime, endTime, notes, customerName, customerEmail,
  customerPhone and totalAmount; the route \<^verbatim>\<open>router.put('/:id')\<close> allows the same without
  totalAmount.
\<close>

definition ctl_allowedFields :: "bookingPatch \<Rightarrow> bookingPatch" where
  "ctl_allowedFields body = body\<lparr>p_id := None, p_paymentStatus := None\<rparr>"

definition route_allowedFields :: "bookingPatch \<Rightarrow> bookingPatch" where
  "route_allowedFields body =
     body\<lparr>p_id := None, p_totalAmount := None, p_paymentStatus := None\<rparr>"

definition putBooking ::
  "(bookingPatch \<Rightarrow> bookingPatch) \<Rightarrow> db \<Rightarrow> string \<Rightarrow> string \<Rightarrow> bookingPatch \<Rightarrow> int \<Rightarrow> nat \<times> db" where
  "putBooking allowed d bookingId uid body now =
     (case getDocument (bookings d) bookingId of
        None \<Rightarrow> (404, d)
      | Some b \<Rightarrow>
          if vendorId b \<noteq> uid then (403, d)
          else (200, d\<lparr>bookings := updateDocument (bookings d) bookingId
                         (applyPatch (allowed body) now)\<rparr>))"

definition ctl_updateBooking :: "db \<Rightarrow> string \<Rightarrow> string \<Rightarrow> bookingPatch \<Rightarrow> int \<Rightarrow> nat \<times> db" where
  "ctl_updateBooking = putBooking ctl_allowedFields"

definition route_updateBooking :: "db \<Rightarrow> string \<Rightarrow> string \<Rightarrow> bookingPatch \<Rightarrow> int \<Rightarrow> nat \<times> db" where
  "route_updateBooking = putBooking route_allowedFields"

definition ctl_cancelBooking :: "db \<Rightarrow> string \<Rightarrow> string \<Rightarrow> int \<Rightarrow> nat \<times> db" where
  "ctl_cancelBooking d bookingId uid now =
     (case getDocument (bookings d) bookingId of
        None \<Rightarrow> (404, d)
      | Some b \<Rightarrow>
          if userId b \<noteq> Some uid then (403, d)
          else if status b = ''cancelled'' then (400, d)
          else if date_lt (startTime b) (Some now) then (400, d)
          else (200, d\<lparr>bookings := updateDocument (bookings d) bookingId
                         (\<lambda>b. b\<lparr>status := ''cancelled'', updatedAt := Some now\<rparr>)\<rparr>))"

section \<open>Payments\<close>

text \<open>
  The payment processor is outside the program. What the code sends to
  \<^verbatim>\<open>stripe.paymentIntents.create\<close> is an \<open>intentParams\<close> (amounts in cents, the metadata
  flattened; the description and the payment-method switch are left out), what comes
  back is a \<open>paymentIntent\<close>, and the call itself is a parameter \<open>stripe\<close> of the model
  that answers \<open>None\<close> when the processor throws.
\<close>

record intentParams =
  ip_amount :: int
  ip_currency :: string
  ip_application_fee_amount :: int
  ip_bookingId :: string
  ip_vendorId :: string
  ip_customerId :: "string option"
  ip_customer :: "string option"

record paymentIntent =
  pi_id :: string
  pi_client_secret :: string
  pi_amount :: int
  pi_bookingId :: string
  pi_vendorId :: string

text \<open>\<^verbatim>\<open>customerId || undefined\<close>.\<close>

definition truthy_str :: "string option \<Rightarrow> string option" where
  "truthy_str a = (case a of None \<Rightarrow> None | Some v \<Rightarrow> if v = [] then None else Some v)"

text \<open>The argument of \<^verbatim>\<open>stripe.paymentIntents.create\<close> in paymentController.\<close>

definition ctl_intentParams :: "string \<Rightarrow> rat \<Rightarrow> string option \<Rightarrow> booking \<Rightarrow> intentParams" where
  "ctl_intentParams bookingId amount customerId bookingData =
     (let applicationFeeAmount = Math_round (amount * (5 / 100))
      in \<lparr> ip_amount = Math_round (amount * 100),
            ip_currency = ''usd'',
            ip_application_fee_amount = applicationFeeAmount,
            ip_bookingId = bookingId,
            ip_vendorId = vendorId bookingData,
            ip_customerId = userId bookingData,
            ip_customer = truthy_str customerId \<rparr>)"

record paymentRequest =
  pr_bookingId :: "string option"
  pr_amount :: "rat option"
  pr_customerId :: "string option"

definition intentUpdate :: "paymentIntent \<Rightarrow> booking \<Rightarrow> booking" where
  "intentUpdate paymentIntent b =
     b\<lparr>stripePaymentIntentId := Some (pi_id paymentIntent), paymentStatus := ''pending''\<rparr>"

text \<open>
  paymentController.createPaymentIntent: the status code with the body (the error
  message, or the client secret), and the database after the call.
\<close>

definition ctl_createPaymentIntent ::
  "(intentParams \<Rightarrow> paymentIntent option) \<Rightarrow> db \<Rightarrow> paymentRequest \<Rightarrow> string
     \<Rightarrow> (nat \<times> string) \<times> db" where
  "ctl_createPaymentIntent stripe d req uid =
     (case (pr_bookingId req, pr_amount req) of
        (Some bookingId, Some amount) \<Rightarrow>
          if bookingId = [] \<or> amount = 0 then ((400, ''Missing required fields''), d)
          else
            (case getDocument (bookings d) bookingId of
               None \<Rightarrow> ((404, ''Booking not found''), d)
             | Some bookingData \<Rightarrow>
                 if vendorId bookingData \<noteq> uid \<and> userId bookingData \<noteq> Some uid
                 then ((403, ''Unauthorized''), d)
                 else
                   (case stripe (ctl_intentParams bookingId amount (pr_customerId req) bookingData) of
                      None \<Rightarrow> ((500, ''Failed to create payment''), d)
                    | Some paymentIntent \<Rightarrow>
                        ((200, pi_client_secret paymentIntent),
                         d\<lparr>bookings := updateDocument (bookings d) bookingId
                                          (intentUpdate paymentIntent)\<rparr>)))
      | _ \<Rightarrow> ((400, ''Missing required fields''), d))"

text \<open>
  StripeService.createPaymentIntent: no check of the caller; it throws (\<open>None\<close>) when the
  processor throws or when the booking to update is missing.
\<close>

record paymentData =
  pd_bookingId :: string
  pd_amount :: rat
  pd_vendorId :: string
  pd_customerId :: "string option"

definition svc_intentParams :: "paymentData \<Rightarrow> intentParams" where
  "svc_intentParams paymentData =
     (let applicationFeeAmount = Math_round (pd_amount paymentData * (5 / 100))
      in \<lparr> ip_amount = Math_round (pd_amount paymentData * 100),
            ip_currency = ''usd'',
            ip_application_fee_amount = applicationFeeAmount,
            ip_bookingId = pd_bookingId paymentData,
            ip_vendorId = pd_vendorId paymentData,
            ip_customerId = Some (str_or (pd_customerId paymentData) ''unknown''),
            ip_customer = truthy_str (pd_customerId paymentData) \<rparr>)"

definition svc_createPaymentIntent ::
  "(intentParams \<Rightarrow> paymentIntent option) \<Rightarrow> db \<Rightarrow> paymentData \<Rightarrow> (paymentIntent \<times> db) option" where
  "svc_createPaymentIntent stripe d paymentData =
     (case stripe (svc_intentParams paymentData) of
        None \<Rightarrow> None
      | Some paymentIntent \<Rightarrow>
          (case getDocument (bookings d) (pd_bookingId paymentData) of
             None \<Rightarrow> None
           | Some _ \<Rightarrow>
               Some (paymentIntent,
                     d\<lparr>bookings := updateDocument (bookings d) (pd_bookingId paymentData)
                                      (intentUpdate paymentIntent)\<rparr>)))"

subsection \<open>Webhook events\<close>

definition paidUpdate :: "paymentIntent \<Rightarrow> booking \<Rightarrow> booking" where
  "paidUpdate paymentIntent b =
     b\<lparr>paymentStatus := ''paid'', stripePaymentId := Some (pi_id paymentIntent)\<rparr>"

definition newTransaction :: "paymentIntent \<Rightarrow> int \<Rightarrow> transaction" where
  "newTransaction paymentIntent now =
     (let amount = of_int (pi_amount paymentIntent) / 100;
          fee = amount * (5 / 100);
          net = amount - fee
      in \<lparr> txn_bookingId = pi_bookingId paymentIntent,
            txn_vendorId = pi_vendorId paymentIntent,
            txn_amount = amount,
            txn_fee = fee,
            txn_net = net,
            txn_stripePaymentId = pi_id paymentIntent,
            txn_status = ''completed'',
            txn_createdAt = now \<rparr>)"

text \<open>
  \<^verbatim>\<open>handleSuccessfulPayment\<close> and \<^verbatim>\<open>handleFailedPayment\<close> catch and log every error, so
  they always return; \<open>newId\<close> is the id Firestore gives the new transaction.
\<close>

definition handleSuccessfulPayment :: "db \<Rightarrow> paymentIntent \<Rightarrow> string \<Rightarrow> int \<Rightarrow> db" where
  "handleSuccessfulPayment d paymentIntent newId now =
     (case getDocument (bookings d) (pi_bookingId paymentIntent) of
        None \<Rightarrow> d
      | Some bookingData \<Rightarrow>
          d\<lparr> bookings := updateDocument (bookings d) (pi_bookingId paymentIntent)
                           (paidUpdate paymentIntent),
             transactions := createDocument (transactions d) newId
                               (newTransaction paymentIntent now) \<rparr>)"

definition handleFailedPayment :: "db \<Rightarrow> paymentIntent \<Rightarrow> db" where
  "handleFailedPayment d paymentIntent =
     d\<lparr>bookings := updateDocument (bookings d) (pi_bookingId paymentIntent)
                      (\<lambda>b. b\<lparr>paymentStatus := ''failed''\<rparr>)\<rparr>"

text \<open>
  \<^verbatim>\<open>handleWebhook\<close>: \<open>None\<close> is a payload whose signature does not verify; an event is its
  type and its \<^verbatim>\<open>data.object\<close>.
\<close>

datatype event = Event string paymentIntent

definition handleWebhook :: "db \<Rightarrow> event option \<Rightarrow> string \<Rightarrow> int \<Rightarrow> nat \<times> db" where
  "handleWebhook d ev newId now =
     (case ev of
        None \<Rightarrow> (400, d)
      | Some (Event ty obj) \<Rightarrow>
          if ty = ''payment_intent.succeeded'' then (200, handleSuccessfulPayment d obj newId now)
          else if ty = ''payment_intent.payment_failed'' then (200, handleFailedPayment d obj)
          else (200, d))"

section \<open>BookingService.getBookingMetrics\<close>

record metrics =
  totalBookings :: nat
  pendingBookings :: nat
  confirmedBookings :: nat
  cancelledBookings :: nat
  upcomingBookings :: nat
  pastBookings :: nat
  totalRevenue :: rat

definition vendorBookings :: "db \<Rightarrow> string \<Rightarrow> (string \<times> booking) list" where
  "vendorBookings d v = filter (\<lambda>(i, b). vendorId b = v) (bookings d)"

text \<open>The body of \<^verbatim>\<open>bookings.forEach\<close>.\<close>

definition metricsStep :: "int \<Rightarrow> string \<times> booking \<Rightarrow> metrics \<Rightarrow> metrics" where
  "metricsStep now ib m =
     (let b = snd ib;
          m1 = (if status b = ''pending'' then m\<lparr>pendingBookings := pendingBookings m + 1\<rparr>
                else if status b = ''confirmed'' then m\<lparr>confirmedBookings := confirmedBookings m + 1\<rparr>
                else if status b = ''cancelled'' then m\<lparr>cancelledBookings := cancelledBookings m + 1\<rparr>
                else m);
          m2 = (if date_gt (startTime b) (Some now)
                then m1\<lparr>upcomingBookings := upcomingBookings m1 + 1\<rparr>
                else m1\<lparr>pastBookings := pastBookings m1 + 1\<rparr>)
      in if paymentStatus b = ''paid''
         then m2\<lparr>totalRevenue := totalRevenue m2 + num_or (Some (totalAmount b)) 0\<rparr>
         else m2)"

definition getBookingMetrics :: "db \<Rightarrow> string \<Rightarrow> int \<Rightarrow> metrics" where
  "getBookingMetrics d v now =
     fold (metricsStep now) (vendorBookings d v)
       \<lparr> totalBookings = length (vendorBookings d v),
         pendingBookings = 0, confirmedBookings = 0, cancelledBookings = 0,
         upcomingBookings = 0, pastBookings = 0, totalRevenue = 0 \<rparr>"

text \<open>
  The revenue in the words of the specification: the sum of the amounts of the vendor's
  transactions with status completed.
\<close>

definition completedTransactionRevenue :: "db \<Rightarrow> string \<Rightarrow> rat" where
  "completedTransactionRevenue d v =
     sum_list (map (\<lambda>(i, t). txn_amount t)
       (filter (\<lambda>(i, t). txn_vendorId t = v \<and> txn_status t = ''completed'') (transactions d)))"

text \<open>The sum of the totals of the vendor's bookings with payment status paid.\<close>

definition paidBookingRevenue :: "db \<Rightarrow> string \<Rightarrow> rat" where
  "paidBookingRevenue d v =
     sum_list (map (\<lambda>(i, b). totalAmount b)
       (filter (\<lambda>(i, b). vendorId b = v \<and> paymentStatus b = ''paid'') (bookings d)))"

section \<open>Sample data\<close>

definition sampleListing :: listing where
  "sampleListing = \<lparr> listing_vendorId = ''v1'', listing_status = ''active'', price = 50 \<rparr>"

text \<open>A booking of listing L1 from \<open>s\<close> to \<open>e\<close> with the given status and payment status.\<close>

definition sampleBooking :: "int \<Rightarrow> int \<Rightarrow> string \<Rightarrow> string \<Rightarrow> booking" where
  "sampleBooking s e st ps =
     \<lparr> id_field = None, listingId = ''L1'', vendorId = ''v1'', userId = Some ''u1'',
       customerName = ''Ann'', customerEmail = ''ann@example.org'', customerPhone = [],
       bookingNotes = [], startTime = Some s, endTime = Some e, status = st,
       totalAmount = 50, paymentStatus = ps, stripePaymentIntentId = None,
       stripePaymentId = None, cancelReason = None, cancelledBy = None,
       cancelledAt = None, createdAt = 0, updatedAt = None \<rparr>"

definition sampleDb :: "booking \<Rightarrow> db" where
  "sampleDb b = \<lparr> listings = [(''L1'', sampleListing)], bookings = [(''b1'', b)], transactions = [] \<rparr>"

definition sampleData :: "int \<Rightarrow> int \<Rightarrow> bookingData" where
  "sampleData s e =
     \<lparr> bd_id = None, bd_listingId = ''L1'', bd_startTime = Some s, bd_endTime = Some e,
       bd_userId = Some ''u2'', bd_customerName = ''Bob'', bd_customerEmail = [],
       bd_customerPhone = [], bd_notes = [], bd_vendorId = None, bd_status = None,
       bd_totalAmount = None, bd_paymentStatus = None, bd_stripePaymentIntentId = None,
       bd_stripePaymentId = None, bd_cancelReason = None, bd_cancelledBy = None,
       bd_cancelledAt = None, bd_createdAt = None, bd_updatedAt = None \<rparr>"

definition sampleIntent :: paymentIntent where
  "sampleIntent =
     \<lparr> pi_id = ''pi_1'', pi_client_secret = ''secret_1'', pi_amount = 5000,
       pi_bookingId = ''b1'', pi_vendorId = ''v1'' \<rparr>"

text \<open>Two pending bookings of listing L1, 10 to 11 and 12 to 13, as the HTTP handler stores them.\<close>

definition sampleDb2 :: db where
  "sampleDb2 =
     \<lparr> listings = [(''L1'', sampleListing)],
       bookings = [(''b1'', sampleBooking 10 11 ''pending'' ''pending''),
                   (''b2'', sampleBooking 12 13 ''pending'' ''pending'')],
       transactions = [] \<rparr>"

definition emptyPatch :: bookingPatch where
  "emptyPatch =
     \<lparr> p_id = None, p_status = None, p_startTime = None, p_endTime = None, p_notes = None,
       p_customerName = None, p_customerEmail = None, p_customerPhone = None,
       p_totalAmount = None, p_paymentStatus = None \<rparr>"

section \<open>Repository lemmas\<close>

lemma map_of_updateDocument:
  "map_of (updateDocument coll i f) k =
     (if k = i then map_option f (map_of coll i) else map_of coll k)"
  by (induction coll i f rule: updateDocument.induct) auto

lemma getDocument_updateDocument:
  "getDocument (updateDocument coll i f) k =
     (if k = i then map_option f (getDocument coll i) else getDocument coll k)"
  by (simp add: getDocument_def map_of_updateDocument)

lemma getDocument_createDocument:
  "getDocument (createDocument coll n x) k =
     (case getDocument coll k of Some v \<Rightarrow> Some v | None \<Rightarrow> if k = n then Some x else None)"
  by (auto simp: getDocument_def createDocument_def map_add_def split: option.splits)

lemma date_lt_not_ge:
  "date_lt s e \<Longrightarrow> \<not> date_ge s e"
  by (cases s; cases e) (auto simp: date_ge_def)

section \<open>Availability\<close>

lemma overlapTest_wellformed:
  assumes "date_lt s e" and "date_lt bs be"
  shows "overlapTest s e bs be = halfOpenOverlap s e bs be"
proof -
  from assms obtain x y u v where "s = Some x" "e = Some y" "bs = Some u" "be = Some v"
    by (cases s; cases e; cases bs; cases be) auto
  with assms show ?thesis
    by (auto simp: overlapTest_def halfOpenOverlap_def date_ge_def date_gt_def)
qed

lemma overlapLoop_wellformed:
  assumes "date_lt s e" and "\<forall>(i, b) \<in> set bs. date_lt (startTime b) (endTime b)"
  shows "overlapLoop s e bs =
    (\<forall>(i, b) \<in> set bs. \<not> halfOpenOverlap s e (startTime b) (endTime b))"
  using assms(2)
proof (induction bs)
  case Nil
  show ?case by simp
next
  case (Cons p bs)
  obtain i b where p: "p = (i, b)" by (cases p)
  from Cons.prems p have wf: "date_lt (startTime b) (endTime b)" by simp
  from Cons show ?case
    by (simp add: p overlapTest_wellformed [OF assms(1) wf])
qed

lemma overlapLoop_first:
  assumes "overlapTest s e (startTime b) (endTime b)"
    and "overlapLoop s e pre"
  shows "\<not> overlapLoop s e (pre @ (i, b) # rest)"
  using assms(2) by (induction pre) (auto simp: assms(1) split: if_splits)

text \<open>
  C1 (as amended). For a candidate interval with \<open>start < end\<close>, and when every fetched
  booking (same listing, status pending or confirmed) itself has \<open>startTime < endTime\<close>,
  \<^verbatim>\<open>checkAvailability\<close> returns true exactly when no fetched booking overlaps the candidate
  under half-open semantics, so touching intervals do not conflict; and it returns false
  whenever some fetched booking overlaps, whatever comes after it in the list.
\<close>

theorem checkAvailability_half_open:
  assumes "date_lt start end"
    and "\<forall>(i, b) \<in> set (activeBookings d lid). date_lt (startTime b) (endTime b)"
  shows "checkAvailability d lid start end =
           Inr (\<forall>(i, b) \<in> set (activeBookings d lid).
                  \<not> halfOpenOverlap start end (startTime b) (endTime b))
       \<and> (\<forall>pre i b rest. activeBookings d lid = pre @ (i, b) # rest
              \<and> halfOpenOverlap start end (startTime b) (endTime b)
            \<longrightarrow> checkAvailability d lid start end = Inr False)"
proof -
  from assms(1) have "\<not> date_ge start end"
    by (rule date_lt_not_ge)
  then have eq: "checkAvailability d lid start end =
           Inr (\<forall>(i, b) \<in> set (activeBookings d lid).
                  \<not> halfOpenOverlap start end (startTime b) (endTime b))"
    by (simp add: checkAvailability_def overlapLoop_wellformed [OF assms])
  have "checkAvailability d lid start end = Inr False"
    if "activeBookings d lid = pre @ (i, b) # rest"
      and "halfOpenOverlap start end (startTime b) (endTime b)" for pre i b rest
  proof -
    from that(1) have "(i, b) \<in> set (activeBookings d lid)" by simp
    with that(2) show ?thesis unfolding eq by blast
  qed
  with eq show ?thesis by blast
qed

text \<open>A booking of 10 to 11 and a candidate of 11 to 12: available.\<close>

theorem checkAvailability_half_open_witness:
  "checkAvailability (sampleDb (sampleBooking 10 11 ''pending'' ''pending'')) ''L1''
     (Some 11) (Some 12) = Inr True"
  using checkAvailability_half_open
    [of "Some 11" "Some 12" "sampleDb (sampleBooking 10 11 ''pending'' ''pending'')" "''L1''"]
  by (simp add: activeBookings_def sampleDb_def sampleBooking_def halfOpenOverlap_def)

text \<open>
  A stored booking need not have \<open>startTime < endTime\<close>: the HTTP handler
  \<^verbatim>\<open>updateBooking\<close> validates nothing, so the vendor can store the range 5 to 5.
\<close>

lemma ctl_updateBooking_stores_empty_range:
  "ctl_updateBooking (sampleDb (sampleBooking 10 11 ''pending'' ''pending'')) ''b1'' ''v1''
     (emptyPatch\<lparr>p_startTime := Some (Some 5), p_endTime := Some (Some 5)\<rparr>) 0
   = (200, sampleDb ((sampleBooking 5 5 ''pending'' ''pending'')\<lparr>updatedAt := Some 0\<rparr>))"
  by (simp add: ctl_updateBooking_def putBooking_def sampleDb_def sampleBooking_def
      getDocument_def applyPatch_def ctl_allowedFields_def emptyPatch_def orElse_def)

text \<open>
  C1 as stated fails when a stored booking is empty: a pending booking from 5 to 5 and
  the candidate from 5 to 7 do not overlap under half-open semantics, yet the third
  disjunct of the test holds and \<^verbatim>\<open>checkAvailability\<close> returns false.
\<close>

theorem checkAvailability_degenerate_counterexample:
  "checkAvailability (sampleDb (sampleBooking 5 5 ''pending'' ''pending'')) ''L1''
     (Some 5) (Some 7) = Inr False
   \<and> activeBookings (sampleDb (sampleBooking 5 5 ''pending'' ''pending'')) ''L1''
     = [(''b1'', sampleBooking 5 5 ''pending'' ''pending'')]
   \<and> \<not> halfOpenOverlap (Some 5) (Some 7)
         (startTime (sampleBooking 5 5 ''pending'' ''pending''))
         (endTime (sampleBooking 5 5 ''pending'' ''pending''))"
  by (simp add: checkAvailability_def activeBookings_def sampleDb_def sampleBooking_def
      halfOpenOverlap_def overlapTest_def date_ge_def date_gt_def)

section \<open>Webhook events\<close>

text \<open>
  C2 (as amended). Every \<^verbatim>\<open>payment_intent.succeeded\<close> event whose booking exists appends
  one transaction; the handler looks up no earlier transaction, so the same event applied
  twice leaves two transactions with the same \<^verbatim>\<open>stripePaymentId\<close>.
\<close>

theorem handleSuccessfulPayment_appends:
  assumes "getDocument (bookings d) (pi_bookingId p) = Some b"
  shows "transactions (handleSuccessfulPayment d p id1 t1)
           = transactions d @ [(id1, newTransaction p t1)]
       \<and> transactions (handleSuccessfulPayment (handleSuccessfulPayment d p id1 t1) p id2 t2)
           = transactions d @ [(id1, newTransaction p t1), (id2, newTransaction p t2)]
       \<and> handleWebhook d (Some (Event ''payment_intent.succeeded'' p)) id1 t1
           = (200, handleSuccessfulPayment d p id1 t1)"
proof -
  let ?d1 = "handleSuccessfulPayment d p id1 t1"
  have one: "transactions ?d1 = transactions d @ [(id1, newTransaction p t1)]"
    using assms by (simp add: handleSuccessfulPayment_def createDocument_def)
  have "getDocument (bookings ?d1) (pi_bookingId p) = Some (paidUpdate p b)"
    using assms by (simp add: handleSuccessfulPayment_def getDocument_updateDocument)
  then have "transactions (handleSuccessfulPayment ?d1 p id2 t2)
      = transactions ?d1 @ [(id2, newTransaction p t2)]"
    by (simp add: handleSuccessfulPayment_def createDocument_def)
  with one show ?thesis by (simp add: handleWebhook_def)
qed

theorem handleSuccessfulPayment_appends_witness:
  "transactions (handleSuccessfulPayment (sampleDb (sampleBooking 10 11 ''pending'' ''pending''))
      sampleIntent ''t1'' 1) = [(''t1'', newTransaction sampleIntent 1)]"
  using handleSuccessfulPayment_appends
    [of "sampleDb (sampleBooking 10 11 ''pending'' ''pending'')" sampleIntent
        "sampleBooking 10 11 ''pending'' ''pending''" "''t1''" 1 "''t2''" 2]
  by (simp add: sampleDb_def sampleIntent_def getDocument_def)

text \<open>C2 as stated fails: one application leaves one transaction, the second leaves two.\<close>

theorem handleSuccessfulPayment_twice_counterexample:
  "length (transactions (handleSuccessfulPayment
      (sampleDb (sampleBooking 10 11 ''pending'' ''pending'')) sampleIntent ''t1'' 1)) = 1
   \<and> length (transactions (handleSuccessfulPayment (handleSuccessfulPayment
      (sampleDb (sampleBooking 10 11 ''pending'' ''pending'')) sampleIntent ''t1'' 1)
        sampleIntent ''t2'' 2)) = 2"
  by (simp add: handleSuccessfulPayment_def sampleDb_def sampleIntent_def getDocument_def
      createDocument_def)

text \<open>
  C3 (as amended). A \<^verbatim>\<open>payment_intent.payment_failed\<close> event whose booking exists writes
  the payment status failed over the current one, whatever it is (paid included), and
  changes no other field of the booking.
\<close>

theorem handleFailedPayment_overwrites:
  assumes "getDocument (bookings d) (pi_bookingId p) = Some b"
  shows "getDocument (bookings (handleFailedPayment d p)) (pi_bookingId p)
           = Some (b\<lparr>paymentStatus := ''failed''\<rparr>)
       \<and> handleWebhook d (Some (Event ''payment_intent.payment_failed'' p)) newId now
           = (200, handleFailedPayment d p)"
  using assms by (simp add: handleFailedPayment_def getDocument_updateDocument handleWebhook_def)

theorem handleFailedPayment_overwrites_witness:
  "map_option paymentStatus
     (getDocument (bookings (handleFailedPayment
        (sampleDb (sampleBooking 10 11 ''confirmed'' ''pending'')) sampleIntent)) ''b1'')
   = Some ''failed''"
  using handleFailedPayment_overwrites
    [of "sampleDb (sampleBooking 10 11 ''confirmed'' ''pending'')" sampleIntent
        "sampleBooking 10 11 ''confirmed'' ''pending''"]
  by (simp add: sampleDb_def sampleIntent_def getDocument_def)

text \<open>C3 as stated fails: a paid booking is failed after the event.\<close>

theorem handleFailedPayment_paid_counterexample:
  "map_option paymentStatus
     (getDocument (bookings (sampleDb (sampleBooking 10 11 ''confirmed'' ''paid''))) ''b1'')
     = Some ''paid''
   \<and> map_option paymentStatus
     (getDocument (bookings (handleFailedPayment
        (sampleDb (sampleBooking 10 11 ''confirmed'' ''paid'')) sampleIntent)) ''b1'')
     = Some ''failed''"
  by (simp add: handleFailedPayment_def sampleDb_def sampleIntent_def getDocument_def
      sampleBooking_def)

section \<open>Payment intents\<close>

text \<open>
  C5. The fee sent to the processor should be five percent of the charge, in cents:
  \<open>round (amount \<times> 100 \<times> 0.05)\<close>. At an amount of 100 dollars the code sends a charge of
  10000 cents and a fee of 5 cents, where five percent is 500 cents: the fee is computed
  from the dollar amount and never converted.
\<close>

theorem createPaymentIntent_fee_at_100:
  "ip_application_fee_amount
     (ctl_intentParams ''b1'' 100 None (sampleBooking 10 11 ''pending'' ''pending'')) = 5
   \<and> ip_amount
     (ctl_intentParams ''b1'' 100 None (sampleBooking 10 11 ''pending'' ''pending'')) = 10000
   \<and> ip_application_fee_amount
     (svc_intentParams \<lparr>pd_bookingId = ''b1'', pd_amount = 100, pd_vendorId = ''v1'',
                        pd_customerId = None\<rparr>) = 5
   \<and> Math_round (100 * 100 * (5 / 100)) = 500"
  by code_simp

text \<open>
  C10. For an existing booking, an authorised requester, a non-empty booking id and a
  non-zero amount, when the processor returns an intent, \<^verbatim>\<open>createPaymentIntent\<close> answers
  200 and the stored booking has the new intent's id and the payment status pending,
  whatever its payment status was; StripeService.createPaymentIntent writes the same
  update.
\<close>

theorem createPaymentIntent_resets_paymentStatus:
  assumes "getDocument (bookings d) bookingId = Some b"
    and "vendorId b = uid \<or> userId b = Some uid"
    and "bookingId \<noteq> []" and "amount \<noteq> 0"
    and "stripe (ctl_intentParams bookingId amount customerId b) = Some intent"
  shows "ctl_createPaymentIntent stripe d
           \<lparr>pr_bookingId = Some bookingId, pr_amount = Some amount, pr_customerId = customerId\<rparr> uid
         = ((200, pi_client_secret intent),
            d\<lparr>bookings := updateDocument (bookings d) bookingId (intentUpdate intent)\<rparr>)
       \<and> getDocument (bookings (snd (ctl_createPaymentIntent stripe d
           \<lparr>pr_bookingId = Some bookingId, pr_amount = Some amount, pr_customerId = customerId\<rparr> uid)))
           bookingId
         = Some (b\<lparr>stripePaymentIntentId := Some (pi_id intent), paymentStatus := ''pending''\<rparr>)
       \<and> (\<forall>pd intent'. pd_bookingId pd = bookingId \<and> stripe (svc_intentParams pd) = Some intent'
             \<longrightarrow> svc_createPaymentIntent stripe d pd
                 = Some (intent', d\<lparr>bookings := updateDocument (bookings d) bookingId
                                                   (intentUpdate intent')\<rparr>))"
  using assms
  by (auto simp: ctl_createPaymentIntent_def svc_createPaymentIntent_def
      getDocument_updateDocument intentUpdate_def)

text \<open>A paid booking, the customer asking: the payment status is pending afterwards.\<close>

theorem createPaymentIntent_resets_paymentStatus_witness:
  "paymentStatus (sampleBooking 10 11 ''confirmed'' ''paid'') = ''paid''
   \<and> map_option paymentStatus (getDocument (bookings (snd (ctl_createPaymentIntent
      (\<lambda>ps. Some sampleIntent) (sampleDb (sampleBooking 10 11 ''confirmed'' ''paid''))
      \<lparr>pr_bookingId = Some ''b1'', pr_amount = Some 50, pr_customerId = None\<rparr> ''u1''))) ''b1'')
   = Some ''pending''"
proof -
  let ?b = "sampleBooking 10 11 ''confirmed'' ''paid''"
  have h1: "getDocument (bookings (sampleDb ?b)) ''b1'' = Some ?b"
    by (simp add: sampleDb_def getDocument_def)
  have h2: "vendorId ?b = ''u1'' \<or> userId ?b = Some ''u1''"
    by (simp add: sampleBooking_def)
  have h3: "''b1'' \<noteq> []" by simp
  have h4: "(50::rat) \<noteq> 0" by simp
  have h5: "(\<lambda>ps. Some sampleIntent) (ctl_intentParams ''b1'' 50 None ?b) = Some sampleIntent"
    by simp
  have "getDocument (bookings (snd (ctl_createPaymentIntent
      (\<lambda>ps. Some sampleIntent) (sampleDb ?b)
      \<lparr>pr_bookingId = Some ''b1'', pr_amount = Some 50, pr_customerId = None\<rparr> ''u1''))) ''b1''
    = Some (?b\<lparr>stripePaymentIntentId := Some (pi_id sampleIntent), paymentStatus := ''pending''\<rparr>)"
    using createPaymentIntent_resets_paymentStatus
      [where stripe = "\<lambda>ps. Some sampleIntent" and customerId = None, OF h1 h2 h3 h4 h5]
    by blast
  then show ?thesis by (simp add: sampleBooking_def)
qed

section \<open>Metrics\<close>

lemma fold_metricsStep_revenue:
  "totalRevenue (fold (metricsStep now) bs m) =
     totalRevenue m + sum_list (map (\<lambda>(i, b). totalAmount b)
        (filter (\<lambda>(i, b). paymentStatus b = ''paid'') bs))"
proof (induction bs arbitrary: m)
  case Nil
  show ?case by simp
next
  case (Cons p bs)
  obtain i b where p: "p = (i, b)" by (cases p)
  have step: "totalRevenue (metricsStep now (i, b) m) =
      totalRevenue m + (if paymentStatus b = ''paid'' then totalAmount b else 0)"
    by (simp add: metricsStep_def Let_def num_or_def)
  show ?case
    by (simp add: p Cons.IH step)
qed

text \<open>
  C9 (as amended). For every vendor the revenue figure is the sum of \<open>totalAmount\<close> over
  that vendor's bookings whose payment status is paid; the transactions are not read.
\<close>

theorem getBookingMetrics_revenue:
  "totalRevenue (getBookingMetrics d v now) = paidBookingRevenue d v
   \<and> getBookingMetrics (d\<lparr>transactions := ts\<rparr>) v now = getBookingMetrics d v now"
proof -
  have "filter (\<lambda>(i, b). paymentStatus b = ''paid'') (vendorBookings d v)
      = filter (\<lambda>(i, b). vendorId b = v \<and> paymentStatus b = ''paid'') (bookings d)"
    by (simp add: vendorBookings_def case_prod_unfold conj_commute)
  then have "totalRevenue (getBookingMetrics d v now) = paidBookingRevenue d v"
    by (simp add: getBookingMetrics_def fold_metricsStep_revenue paidBookingRevenue_def)
  moreover have "getBookingMetrics (d\<lparr>transactions := ts\<rparr>) v now = getBookingMetrics d v now"
    by (simp add: getBookingMetrics_def vendorBookings_def)
  ultimately show ?thesis by simp
qed

theorem getBookingMetrics_revenue_witness:
  "totalRevenue (getBookingMetrics (sampleDb (sampleBooking 10 11 ''confirmed'' ''pending''))
     ''v1'' 0) = 0"
  using getBookingMetrics_revenue
    [of "sampleDb (sampleBooking 10 11 ''confirmed'' ''pending'')" "''v1''" 0 "[]"]
  by (simp add: paidBookingRevenue_def sampleDb_def sampleBooking_def)

text \<open>
  C9 as stated fails: with one paid booking of 50 and no transaction at all, the revenue
  is 50 and the sum over the completed transactions is 0.
\<close>

theorem getBookingMetrics_revenue_counterexample:
  "totalRevenue (getBookingMetrics (sampleDb (sampleBooking 10 11 ''confirmed'' ''paid''))
     ''v1'' 0) = 50
   \<and> completedTransactionRevenue (sampleDb (sampleBooking 10 11 ''confirmed'' ''paid'')) ''v1'' = 0"
  by (simp add: getBookingMetrics_def vendorBookings_def metricsStep_def Let_def num_or_def
      completedTransactionRevenue_def sampleDb_def sampleBooking_def date_gt_def)

section \<open>Booking creation\<close>

text \<open>
  C6. \<^verbatim>\<open>BookingService.createBooking\<close> fails with "Listing not found" exactly when the
  listing is absent, with "Listing is not active" exactly when the listing is there and
  its status is not active, with "End time must be after start time" exactly when
  moreover \<open>endTime \<le> startTime\<close>, and with "The requested time slot is not available"
  exactly when moreover the availability check answers false; it succeeds exactly when
  none of the four holds, and then the new booking is appended to the bookings.
\<close>

theorem createBooking_raises_iff:
  "(createBooking d bd newId now = Inl ListingNotFound)
      = (getDocument (listings d) (bd_listingId bd) = None)
   \<and> (createBooking d bd newId now = Inl ListingNotActive)
      = (\<exists>l. getDocument (listings d) (bd_listingId bd) = Some l \<and> listing_status l \<noteq> ''active'')
   \<and> (createBooking d bd newId now = Inl InvalidRange)
      = (\<exists>l. getDocument (listings d) (bd_listingId bd) = Some l \<and> listing_status l = ''active''
            \<and> date_le (bd_endTime bd) (bd_startTime bd))
   \<and> (createBooking d bd newId now = Inl SlotConflict)
      = (\<exists>l. getDocument (listings d) (bd_listingId bd) = Some l \<and> listing_status l = ''active''
            \<and> \<not> date_le (bd_endTime bd) (bd_startTime bd)
            \<and> checkAvailability d (bd_listingId bd) (bd_startTime bd) (bd_endTime bd) = Inr False)
   \<and> (\<exists>bk d'. createBooking d bd newId now = Inr (bk, d'))
      = (\<exists>l. getDocument (listings d) (bd_listingId bd) = Some l \<and> listing_status l = ''active''
            \<and> \<not> date_le (bd_endTime bd) (bd_startTime bd)
            \<and> checkAvailability d (bd_listingId bd) (bd_startTime bd) (bd_endTime bd) \<noteq> Inr False)
   \<and> (\<forall>bk d'. createBooking d bd newId now = Inr (bk, d')
         \<longrightarrow> d' = d\<lparr>bookings := bookings d @ [(newId, bk)]\<rparr>)"
  by (auto simp: createBooking_def checkAvailability_def date_ge_def createDocument_def Let_def
      split: option.splits sum.splits if_splits)

text \<open>A booking of 10 to 11 is stored: 10 to 12 conflicts, 12 to 12 is no range, 11 to 12 succeeds.\<close>

theorem createBooking_raises_iff_witness:
  "createBooking (sampleDb (sampleBooking 10 11 ''pending'' ''pending'')) (sampleData 10 12) ''b2'' 0
     = Inl SlotConflict
   \<and> createBooking (sampleDb (sampleBooking 10 11 ''pending'' ''pending'')) (sampleData 12 12) ''b2'' 0
     = Inl InvalidRange
   \<and> (\<exists>bk d'. createBooking (sampleDb (sampleBooking 10 11 ''pending'' ''pending''))
         (sampleData 11 12) ''b2'' 0 = Inr (bk, d'))"
proof -
  let ?d = "sampleDb (sampleBooking 10 11 ''pending'' ''pending'')"
  have l: "getDocument (listings ?d) ''L1'' = Some sampleListing"
    by (simp add: sampleDb_def getDocument_def)
  have a: "listing_status sampleListing = ''active''"
    by (simp add: sampleListing_def)
  have c1: "checkAvailability ?d ''L1'' (Some 10) (Some 12) = Inr False"
    by (simp add: checkAvailability_def activeBookings_def sampleDb_def sampleBooking_def
        overlapTest_def date_ge_def date_gt_def)
  have c2: "checkAvailability ?d ''L1'' (Some 11) (Some 12) = Inr True"
    by (simp add: checkAvailability_def activeBookings_def sampleDb_def sampleBooking_def
        overlapTest_def date_ge_def date_gt_def)
  note t = createBooking_raises_iff [of ?d _ "''b2''" 0]
  have "createBooking ?d (sampleData 10 12) ''b2'' 0 = Inl SlotConflict"
    using t [of "sampleData 10 12"] l a c1 by (simp add: sampleData_def)
  moreover have "createBooking ?d (sampleData 12 12) ''b2'' 0 = Inl InvalidRange"
    using t [of "sampleData 12 12"] l a by (simp add: sampleData_def)
  moreover have "\<exists>bk d'. createBooking ?d (sampleData 11 12) ''b2'' 0 = Inr (bk, d')"
    using t [of "sampleData 11 12"] l a c2 by (simp add: sampleData_def)
  ultimately show ?thesis by simp
qed

text \<open>
  The HTTP handler \<^verbatim>\<open>createBooking\<close> of bookingController makes no availability check:
  it stores a booking of 10 to 12 beside the one of 10 to 11.
\<close>

lemma ctl_createBooking_no_availability_check:
  "fst (ctl_createBooking (sampleDb (sampleBooking 10 11 ''pending'' ''pending''))
     (sampleData 10 12) ''u2'' None None ''b2'' 0) = 201"
  by (simp add: ctl_createBooking_def sampleDb_def sampleData_def sampleListing_def
      getDocument_def)

text \<open>
  C7 (as amended). A booking created by \<^verbatim>\<open>BookingService.createBooking\<close> has payment status
  pending whatever the caller supplied; its status is the caller's status when that is a
  non-empty string and pending otherwise; its total is the caller's totalAmount when that
  is a non-zero number and the listing's price otherwise. The HTTP handler reads neither
  field from the caller: it stores pending and the listing's price.
\<close>

theorem createBooking_stored_fields:
  assumes "getDocument (listings d) (bd_listingId bd) = Some l"
  shows "(\<forall>bk d'. createBooking d bd newId now = Inr (bk, d') \<longrightarrow>
            bookings d' = bookings d @ [(newId, bk)]
          \<and> paymentStatus bk = ''pending''
          \<and> status bk = str_or (bd_status bd) ''pending''
          \<and> totalAmount bk = num_or (bd_totalAmount bd) (price l))
       \<and> (fst (ctl_createBooking d bd uid userName userEmail newId now) = 201 \<longrightarrow>
            (\<exists>bk. bookings (snd (ctl_createBooking d bd uid userName userEmail newId now))
                     = bookings d @ [(newId, bk)]
                 \<and> paymentStatus bk = ''pending''
                 \<and> status bk = ''pending''
                 \<and> totalAmount bk = price l))"
  using assms
  by (auto simp: createBooking_def ctl_createBooking_def createDocument_def Let_def
      newBooking_def ctl_newBooking_def split: sum.splits if_splits)

theorem createBooking_stored_fields_witness:
  "\<not> isl (createBooking (sampleDb (sampleBooking 10 11 ''pending'' ''pending''))
       (sampleData 11 12) ''b2'' 0)
   \<and> status (fst (projr (createBooking (sampleDb (sampleBooking 10 11 ''pending'' ''pending''))
       (sampleData 11 12) ''b2'' 0))) = ''pending''
   \<and> totalAmount (fst (projr (createBooking (sampleDb (sampleBooking 10 11 ''pending'' ''pending''))
       (sampleData 11 12) ''b2'' 0))) = 50"
proof -
  let ?d = "sampleDb (sampleBooking 10 11 ''pending'' ''pending'')"
  have l: "getDocument (listings ?d) (bd_listingId (sampleData 11 12)) = Some sampleListing"
    by (simp add: sampleDb_def getDocument_def sampleData_def)
  have ok: "createBooking ?d (sampleData 11 12) ''b2'' 0
      = Inr (newBooking (sampleData 11 12) sampleListing 0,
             ?d\<lparr>bookings := createDocument (bookings ?d) ''b2''
                    (newBooking (sampleData 11 12) sampleListing 0)\<rparr>)"
    by (simp add: createBooking_def checkAvailability_def activeBookings_def sampleDb_def
        sampleBooking_def sampleData_def sampleListing_def getDocument_def overlapTest_def
        date_ge_def date_gt_def Let_def)
  from createBooking_stored_fields [OF l, of "''b2''" 0] ok
  have "status (newBooking (sampleData 11 12) sampleListing 0)
          = str_or (bd_status (sampleData 11 12)) ''pending''
      \<and> totalAmount (newBooking (sampleData 11 12) sampleListing 0)
          = num_or (bd_totalAmount (sampleData 11 12)) (price sampleListing)"
    by blast
  moreover have "str_or (bd_status (sampleData 11 12)) ''pending'' = ''pending''"
    and "num_or (bd_totalAmount (sampleData 11 12)) (price sampleListing) = 50"
    by (simp_all add: str_or_def num_or_def sampleData_def sampleListing_def)
  ultimately show ?thesis
    by (simp add: ok)
qed

text \<open>
  C7 as stated fails: a caller who supplies the status confirmed and the total 1 gets
  them stored, for a listing whose price is 50.
\<close>

theorem createBooking_caller_fields_counterexample:
  "\<not> isl (createBooking (sampleDb (sampleBooking 10 11 ''pending'' ''pending''))
       ((sampleData 11 12)\<lparr>bd_status := Some ''confirmed'', bd_totalAmount := Some 1\<rparr>) ''b2'' 0)
   \<and> status (fst (projr (createBooking (sampleDb (sampleBooking 10 11 ''pending'' ''pending''))
       ((sampleData 11 12)\<lparr>bd_status := Some ''confirmed'', bd_totalAmount := Some 1\<rparr>) ''b2'' 0)))
     = ''confirmed''
   \<and> totalAmount (fst (projr (createBooking (sampleDb (sampleBooking 10 11 ''pending'' ''pending''))
       ((sampleData 11 12)\<lparr>bd_status := Some ''confirmed'', bd_totalAmount := Some 1\<rparr>) ''b2'' 0)))
     = 1
   \<and> price sampleListing = 50"
  by (simp add: createBooking_def checkAvailability_def activeBookings_def sampleDb_def
      sampleBooking_def sampleData_def sampleListing_def getDocument_def overlapTest_def
      date_ge_def date_gt_def newBooking_def str_or_def num_or_def Let_def createDocument_def)

section \<open>Cancellation\<close>

text \<open>
  C8. \<^verbatim>\<open>BookingService.cancelBooking\<close> fails with "Booking not found" exactly when the
  booking is absent, with "Unauthorized to cancel this booking" exactly when the requester
  is neither the booking's vendor nor its user, with "Booking is already cancelled"
  exactly when moreover the status is cancelled, and with "Cannot cancel past bookings"
  exactly when moreover the start time is before now; otherwise it stores the status
  cancelled with cancelledBy, cancelledAt and the reason, and touches no other booking.
\<close>

theorem cancelBooking_raises_iff:
  "(cancelBooking d i uid reason now = Inl BookingNotFound)
      = (getDocument (bookings d) i = None)
   \<and> (cancelBooking d i uid reason now = Inl Unauthorized)
      = (\<exists>b. getDocument (bookings d) i = Some b \<and> vendorId b \<noteq> uid \<and> userId b \<noteq> Some uid)
   \<and> (cancelBooking d i uid reason now = Inl AlreadyCancelled)
      = (\<exists>b. getDocument (bookings d) i = Some b \<and> (vendorId b = uid \<or> userId b = Some uid)
            \<and> status b = ''cancelled'')
   \<and> (cancelBooking d i uid reason now = Inl PastBooking)
      = (\<exists>b. getDocument (bookings d) i = Some b \<and> (vendorId b = uid \<or> userId b = Some uid)
            \<and> status b \<noteq> ''cancelled'' \<and> date_lt (startTime b) (Some now))
   \<and> (\<forall>b. getDocument (bookings d) i = Some b \<and> (vendorId b = uid \<or> userId b = Some uid)
            \<and> status b \<noteq> ''cancelled'' \<and> \<not> date_lt (startTime b) (Some now)
        \<longrightarrow> (\<exists>d'. cancelBooking d i uid reason now
                    = Inr (Some (b\<lparr>status := ''cancelled'', cancelReason := Some reason,
                                   cancelledBy := Some uid, cancelledAt := Some now,
                                   updatedAt := Some now\<rparr>), d')
                  \<and> getDocument (bookings d') i
                    = Some (b\<lparr>status := ''cancelled'', cancelReason := Some reason,
                              cancelledBy := Some uid, cancelledAt := Some now,
                              updatedAt := Some now\<rparr>)
                  \<and> (\<forall>k. k \<noteq> i \<longrightarrow> getDocument (bookings d') k = getDocument (bookings d) k)))"
  by (auto simp: cancelBooking_def Let_def getDocument_updateDocument cancelUpdate_def
      split: option.splits)

theorem cancelBooking_raises_iff_witness:
  "cancelBooking (sampleDb (sampleBooking 10 11 ''confirmed'' ''pending'')) ''b1'' ''u9'' [] 0
     = Inl Unauthorized
   \<and> cancelBooking (sampleDb (sampleBooking 10 11 ''confirmed'' ''pending'')) ''b1'' ''u1'' [] 20
     = Inl PastBooking
   \<and> cancelBooking (sampleDb (sampleBooking 10 11 ''cancelled'' ''pending'')) ''b1'' ''v1'' [] 0
     = Inl AlreadyCancelled
   \<and> cancelBooking (sampleDb (sampleBooking 10 11 ''confirmed'' ''pending'')) ''b2'' ''u1'' [] 0
     = Inl BookingNotFound"
proof -
  let ?b = "sampleBooking 10 11 ''confirmed'' ''pending''"
  let ?c = "sampleBooking 10 11 ''cancelled'' ''pending''"
  have g: "\<And>b. getDocument (bookings (sampleDb b)) ''b1'' = Some b"
    "\<And>b. getDocument (bookings (sampleDb b)) ''b2'' = None"
    by (simp_all add: sampleDb_def getDocument_def)
  have "cancelBooking (sampleDb ?b) ''b1'' ''u9'' [] 0 = Inl Unauthorized"
    using cancelBooking_raises_iff [of "sampleDb ?b" "''b1''" "''u9''" "[]" 0]
    by (simp add: g sampleBooking_def)
  moreover have "cancelBooking (sampleDb ?b) ''b1'' ''u1'' [] 20 = Inl PastBooking"
    using cancelBooking_raises_iff [of "sampleDb ?b" "''b1''" "''u1''" "[]" 20]
    by (simp add: g sampleBooking_def)
  moreover have "cancelBooking (sampleDb ?c) ''b1'' ''v1'' [] 0 = Inl AlreadyCancelled"
    using cancelBooking_raises_iff [of "sampleDb ?c" "''b1''" "''v1''" "[]" 0]
    by (simp add: g sampleBooking_def)
  moreover have "cancelBooking (sampleDb ?b) ''b2'' ''u1'' [] 0 = Inl BookingNotFound"
    using cancelBooking_raises_iff [of "sampleDb ?b" "''b2''" "''u1''" "[]" 0]
    by (simp add: g)
  ultimately show ?thesis by simp
qed

text \<open>
  The HTTP handler \<^verbatim>\<open>cancelBooking\<close> of bookingController admits the customer only: the
  vendor gets 403.
\<close>

lemma ctl_cancelBooking_vendor_forbidden:
  "ctl_cancelBooking (sampleDb (sampleBooking 10 11 ''pending'' ''pending'')) ''b1'' ''v1'' 0
     = (403, sampleDb (sampleBooking 10 11 ''pending'' ''pending''))"
  by (simp add: ctl_cancelBooking_def sampleDb_def sampleBooking_def getDocument_def)

section \<open>Status transitions\<close>

lemma overlapLoop_iff:
  "overlapLoop s e xs = (\<forall>(k, x) \<in> set xs. \<not> overlapTest s e (startTime x) (endTime x))"
proof (induction xs)
  case Nil
  show ?case by simp
next
  case (Cons q xs)
  obtain k x where q: "q = (k, x)" by (cases q)
  show ?case by (simp add: q Cons.IH)
qed

text \<open>
  What \<^verbatim>\<open>BookingService.updateBooking\<close> returns for a stored booking, with its query
  written out over the bookings collection.
\<close>

lemma updateBooking_result:
  assumes "getDocument (bookings d) i = Some b"
  shows "updateBooking d i p now =
     (if (p_startTime p \<noteq> None \<or> p_endTime p \<noteq> None)
           \<and> date_ge (orElse (p_startTime p) (startTime b)) (orElse (p_endTime p) (endTime b))
      then Inl InvalidRange
      else if (p_startTime p \<noteq> None \<or> p_endTime p \<noteq> None)
           \<and> (\<exists>(k, x) \<in> set (bookings d).
                  listingId x = listingId b
                  \<and> (status x = ''pending'' \<or> status x = ''confirmed'')
                  \<and> (\<exists>v. id_field x = Some v \<and> v \<noteq> i)
                  \<and> overlapTest (orElse (p_startTime p) (startTime b))
                        (orElse (p_endTime p) (endTime b)) (startTime x) (endTime x))
      then Inl SlotConflict
      else Inr (Some (applyPatch p now b),
                d\<lparr>bookings := updateDocument (bookings d) i (applyPatch p now)\<rparr>))"
proof -
  let ?s = "orElse (p_startTime p) (startTime b)"
  let ?e = "orElse (p_endTime p) (endTime b)"
  have loop: "overlapLoop ?s ?e (otherActiveBookings d (listingId b) i) =
      (\<not> (\<exists>(k, x) \<in> set (bookings d).
                  listingId x = listingId b
                  \<and> (status x = ''pending'' \<or> status x = ''confirmed'')
                  \<and> (\<exists>v. id_field x = Some v \<and> v \<noteq> i)
                  \<and> overlapTest ?s ?e (startTime x) (endTime x)))"
    unfolding overlapLoop_iff otherActiveBookings_def
    by (auto split: option.splits)
  show ?thesis
    using assms
    by (simp add: updateBooking_def Let_def getDocument_updateDocument loop)
qed

text \<open>
  C4 (as amended). For a stored booking: cancelling one whose status is cancelled fails
  and writes nothing; creating another booking leaves it as it is; an update, by the
  service or by the vendor through either HTTP handler, stores the status the update
  carries, whatever the current status, and keeps the current status only when the
  update carries none (another user gets 403 and nothing is written); and a cancellation
  that succeeds starts from a status other than cancelled and stores cancelled.
  The service's update never looks at the current status: it fails only when the update
  carries a time and the resulting range is not a range, or overlaps an active booking of
  the listing whose stored \<^verbatim>\<open>id\<close> field differs from the booking id; where no stored
  booking has such a field it never reports a conflict.
\<close>

theorem booking_status_transitions:
  assumes "getDocument (bookings d) i = Some b"
  shows "(status b = ''cancelled'' \<longrightarrow>
            cancelBooking d i uid reason now
              = (if vendorId b \<noteq> uid \<and> userId b \<noteq> Some uid then Inl Unauthorized
                 else Inl AlreadyCancelled))
       \<and> (\<forall>bk d'. createBooking d bd newId now = Inr (bk, d')
             \<longrightarrow> getDocument (bookings d') i = Some b)
       \<and> (\<forall>r d'. updateBooking d i p now = Inr (r, d')
             \<longrightarrow> map_option status (getDocument (bookings d') i)
                   = Some (orElse (p_status p) (status b)))
       \<and> updateBooking d i p now =
           (if (p_startTime p \<noteq> None \<or> p_endTime p \<noteq> None)
                 \<and> date_ge (orElse (p_startTime p) (startTime b))
                       (orElse (p_endTime p) (endTime b))
            then Inl InvalidRange
            else if (p_startTime p \<noteq> None \<or> p_endTime p \<noteq> None)
                 \<and> (\<exists>(k, x) \<in> set (bookings d).
                        listingId x = listingId b
                        \<and> (status x = ''pending'' \<or> status x = ''confirmed'')
                        \<and> (\<exists>v. id_field x = Some v \<and> v \<noteq> i)
                        \<and> overlapTest (orElse (p_startTime p) (startTime b))
                              (orElse (p_endTime p) (endTime b)) (startTime x) (endTime x))
            then Inl SlotConflict
            else Inr (Some (applyPatch p now b),
                      d\<lparr>bookings := updateDocument (bookings d) i (applyPatch p now)\<rparr>))
       \<and> ((\<forall>(k, x) \<in> set (bookings d). id_field x = None)
             \<longrightarrow> updateBooking d i p now \<noteq> Inl SlotConflict)
       \<and> (vendorId b = uid \<longrightarrow>
             map_option status (getDocument (bookings (snd (ctl_updateBooking d i uid p now))) i)
               = Some (orElse (p_status p) (status b))
           \<and> map_option status (getDocument (bookings (snd (route_updateBooking d i uid p now))) i)
               = Some (orElse (p_status p) (status b)))
       \<and> (vendorId b \<noteq> uid \<longrightarrow>
             ctl_updateBooking d i uid p now = (403, d)
           \<and> route_updateBooking d i uid p now = (403, d))
       \<and> (\<forall>r d'. cancelBooking d i uid reason now = Inr (r, d')
             \<longrightarrow> status b \<noteq> ''cancelled''
               \<and> map_option status (getDocument (bookings d') i) = Some ''cancelled'')"
proof -
  note c3a = updateBooking_result [OF assms, of p now]
  have c3b: "(\<forall>(k, x) \<in> set (bookings d). id_field x = None)
             \<longrightarrow> updateBooking d i p now \<noteq> Inl SlotConflict"
  proof
    assume noid: "\<forall>(k, x) \<in> set (bookings d). id_field x = None"
    then have "\<not> (\<exists>(k, x) \<in> set (bookings d).
                        listingId x = listingId b
                        \<and> (status x = ''pending'' \<or> status x = ''confirmed'')
                        \<and> (\<exists>v. id_field x = Some v \<and> v \<noteq> i)
                        \<and> overlapTest (orElse (p_startTime p) (startTime b))
                              (orElse (p_endTime p) (endTime b)) (startTime x) (endTime x))"
      by auto
    with c3a show "updateBooking d i p now \<noteq> Inl SlotConflict"
      by (simp split: if_splits)
  qed
  have c1: "status b = ''cancelled'' \<longrightarrow>
            cancelBooking d i uid reason now
              = (if vendorId b \<noteq> uid \<and> userId b \<noteq> Some uid then Inl Unauthorized
                 else Inl AlreadyCancelled)"
    using assms by (simp add: cancelBooking_def)
  have c2: "\<forall>bk d'. createBooking d bd newId now = Inr (bk, d')
             \<longrightarrow> getDocument (bookings d') i = Some b"
    using assms
    by (auto simp: createBooking_def Let_def getDocument_createDocument
        split: option.splits sum.splits if_splits)
  have c3: "\<forall>r d'. updateBooking d i p now = Inr (r, d')
             \<longrightarrow> map_option status (getDocument (bookings d') i)
                   = Some (orElse (p_status p) (status b))"
    using assms
    by (auto simp: updateBooking_def Let_def getDocument_updateDocument applyPatch_def
        split: if_splits)
  have c4: "vendorId b = uid \<longrightarrow>
             map_option status (getDocument (bookings (snd (ctl_updateBooking d i uid p now))) i)
               = Some (orElse (p_status p) (status b))
           \<and> map_option status (getDocument (bookings (snd (route_updateBooking d i uid p now))) i)
               = Some (orElse (p_status p) (status b))"
    using assms
    by (simp add: ctl_updateBooking_def route_updateBooking_def putBooking_def
        getDocument_updateDocument applyPatch_def ctl_allowedFields_def route_allowedFields_def)
  have c5: "vendorId b \<noteq> uid \<longrightarrow>
             ctl_updateBooking d i uid p now = (403, d)
           \<and> route_updateBooking d i uid p now = (403, d)"
    using assms by (simp add: ctl_updateBooking_def route_updateBooking_def putBooking_def)
  have c6: "\<forall>r d'. cancelBooking d i uid reason now = Inr (r, d')
             \<longrightarrow> status b \<noteq> ''cancelled''
               \<and> map_option status (getDocument (bookings d') i) = Some ''cancelled''"
    using assms
    by (auto simp: cancelBooking_def Let_def getDocument_updateDocument cancelUpdate_def
        split: if_splits)
  from c1 c2 c3 c3a c3b c4 c5 c6 show ?thesis by blast
qed

text \<open>
  A cancelled booking: cancelling fails, an update of the notes keeps the status. Two
  stored bookings without an \<^verbatim>\<open>id\<close> field: the service moves the second onto the range
  of the first and stores the status it is given.
\<close>

theorem booking_status_transitions_witness:
  "cancelBooking (sampleDb (sampleBooking 10 11 ''cancelled'' ''pending'')) ''b1'' ''u1'' [] 0
     = Inl AlreadyCancelled
   \<and> map_option status (getDocument (bookings (snd (ctl_updateBooking
        (sampleDb (sampleBooking 10 11 ''cancelled'' ''pending'')) ''b1'' ''v1''
        (emptyPatch\<lparr>p_notes := Some ''late''\<rparr>) 0))) ''b1'') = Some ''cancelled''
   \<and> updateBooking sampleDb2 ''b2''
        (emptyPatch\<lparr>p_status := Some ''confirmed'', p_startTime := Some (Some 10),
                     p_endTime := Some (Some 11)\<rparr>) 0
     = Inr (Some ((sampleBooking 10 11 ''confirmed'' ''pending'')\<lparr>updatedAt := Some 0\<rparr>),
            sampleDb2\<lparr>bookings :=
              [(''b1'', sampleBooking 10 11 ''pending'' ''pending''),
               (''b2'', (sampleBooking 10 11 ''confirmed'' ''pending'')\<lparr>updatedAt := Some 0\<rparr>)]\<rparr>)"
proof -
  let ?b = "sampleBooking 10 11 ''cancelled'' ''pending''"
  let ?p = "emptyPatch\<lparr>p_status := Some ''confirmed'', p_startTime := Some (Some 10),
                     p_endTime := Some (Some 11)\<rparr>"
  have h: "getDocument (bookings (sampleDb ?b)) ''b1'' = Some ?b"
    by (simp add: sampleDb_def getDocument_def)
  have h2: "getDocument (bookings sampleDb2) ''b2'' = Some (sampleBooking 12 13 ''pending'' ''pending'')"
    by (simp add: sampleDb2_def getDocument_def)
  have "cancelBooking (sampleDb ?b) ''b1'' ''u1'' [] 0 = Inl AlreadyCancelled"
    using booking_status_transitions [where uid = "''u1''" and reason = "[]" and now = 0, OF h]
    by (simp add: sampleBooking_def)
  moreover have "map_option status (getDocument (bookings (snd (ctl_updateBooking
        (sampleDb ?b) ''b1'' ''v1'' (emptyPatch\<lparr>p_notes := Some ''late''\<rparr>) 0))) ''b1'')
      = Some ''cancelled''"
    using booking_status_transitions
      [where uid = "''v1''" and now = 0 and p = "emptyPatch\<lparr>p_notes := Some ''late''\<rparr>", OF h]
    by (simp add: sampleBooking_def emptyPatch_def orElse_def)
  moreover have "updateBooking sampleDb2 ''b2'' ?p 0
     = Inr (Some ((sampleBooking 10 11 ''confirmed'' ''pending'')\<lparr>updatedAt := Some 0\<rparr>),
            sampleDb2\<lparr>bookings :=
              [(''b1'', sampleBooking 10 11 ''pending'' ''pending''),
               (''b2'', (sampleBooking 10 11 ''confirmed'' ''pending'')\<lparr>updatedAt := Some 0\<rparr>)]\<rparr>)"
    using booking_status_transitions [where p = ?p and now = 0, OF h2]
    by (simp add: sampleDb2_def sampleBooking_def emptyPatch_def orElse_def applyPatch_def
        date_ge_def)
  ultimately show ?thesis by simp
qed

text \<open>
  C4 as stated fails: the vendor's update with the status pending reopens a cancelled
  booking, and the customer's cancellation turns a completed booking into a cancelled one.
\<close>

theorem terminal_status_counterexample:
  "map_option status (getDocument (bookings
      (sampleDb (sampleBooking 10 11 ''cancelled'' ''pending''))) ''b1'') = Some ''cancelled''
   \<and> map_option status (getDocument (bookings (snd (ctl_updateBooking
        (sampleDb (sampleBooking 10 11 ''cancelled'' ''pending'')) ''b1'' ''v1''
        (emptyPatch\<lparr>p_status := Some ''pending''\<rparr>) 0))) ''b1'') = Some ''pending''
   \<and> \<not> isl (cancelBooking (sampleDb (sampleBooking 10 11 ''completed'' ''paid''))
        ''b1'' ''u1'' [] 0)
   \<and> map_option status (getDocument (bookings (snd (projr (cancelBooking
        (sampleDb (sampleBooking 10 11 ''completed'' ''paid'')) ''b1'' ''u1'' [] 0)))) ''b1'')
     = Some ''cancelled''"
  by (simp add: ctl_updateBooking_def putBooking_def cancelBooking_def sampleDb_def
      sampleBooking_def getDocument_def applyPatch_def ctl_allowedFields_def emptyPatch_def
      orElse_def cancelUpdate_def Let_def)

end
